theory Spec2Isabelle
  imports Main "HOL-Library.Word"
begin

section \<open>JavaScript values\<close>

text \<open>
  A JavaScript string is a sequence of UTF-16 code units, and \<open>.length\<close> counts them.
  String literals of the source are written \<open>lit ''...''\<close>.
\<close>

type_synonym code_unit = "16 word"
type_synonym js_string = "code_unit list"

definition lit :: "string \<Rightarrow> js_string" where
  "lit s = map of_char s"

text \<open>
  The values a parameter typed \<open>any\<close> or \<open>unknown\<close> can hold. The functions of this
  program inspect such a value only through \<open>typeof v === 'string'\<close> and through equality
  with strings, so numbers are kept integral. An object is its reference; the \<open>File\<close>
  entries of a submitted form are objects.
\<close>

datatype js_value =
    JUndefined
  | JNull
  | JBoolean bool
  | JNumber int
  | JString js_string
  | JObject nat

text \<open>The narrowing \<open>typeof v === 'string'\<close>: the string inside, when \<open>v\<close> is one.\<close>

fun as_string :: "js_value \<Rightarrow> js_string option" where
  "as_string (JString s) = Some s"
| "as_string _ = None"

text \<open>
  \<open>Boolean(x)\<close>, and the test \<open>!x\<close>, for a string that may be absent (\<open>undefined\<close> or
  \<open>null\<close>): only a non-empty string is truthy.
\<close>

fun Boolean :: "js_string option \<Rightarrow> bool" where
  "Boolean None = False"
| "Boolean (Some s) = (s \<noteq> [])"

text \<open>
  \<open>Array.prototype.includes\<close> compares with SameValueZero, which on the values above is
  equality.
\<close>

definition array_includes :: "js_value list \<Rightarrow> js_value \<Rightarrow> bool" where
  "array_includes xs v = (v \<in> set xs)"

section \<open>Requests, responses and the collaborators\<close>

text \<open>
  \<open>FormData\<close>: the submitted entries in order; \<open>get\<close> returns the first value stored
  under a name, or \<open>null\<close>.
\<close>

datatype form_entry = EntryString js_string | EntryFile nat

type_synonym form_data = "(js_string \<times> form_entry) list"

definition form_get :: "form_data \<Rightarrow> js_string \<Rightarrow> js_value" where
  "form_get form k =
     (case map_of form k of
        None \<Rightarrow> JNull
      | Some (EntryString s) \<Rightarrow> JString s
      | Some (EntryFile r) \<Rightarrow> JObject r)"

record request =
  cookie :: js_string
  formData :: form_data

type_synonym user_id = js_string

record user =
  user_id :: user_id
  user_username :: js_string

record joke_create_data =
  data_name :: js_string
  data_content :: js_string
  data_jokesterId :: user_id

record joke =
  joke_id :: js_string
  joke_name :: js_string
  joke_content :: js_string
  joke_jokesterId :: user_id

text \<open>The payload types \<open>ActionsData\<close> (jokes/new) and \<open>ActionData\<close> (login).\<close>

record joke_FormFields =
  fields_name :: js_string
  fields_content :: js_string

record joke_FormErrorFields =
  errors_name :: "js_string option"
  errors_content :: "js_string option"

record login_FormFields =
  fields_loginType :: js_string
  fields_username :: js_string
  fields_password :: js_string

record login_FormErrorFields =
  errors_username :: "js_string option"
  errors_password :: "js_string option"

record ('e, 'f) ActionData =
  formError :: "js_string option"
  fieldErrors :: "'e option"
  fields' :: "'f option"

datatype payload =
    EmptyObject
  | JokeActionsData "(joke_FormErrorFields, joke_FormFields) ActionData"
  | LoginActionData "(login_FormErrorFields, login_FormFields) ActionData"

datatype body = NoBody | TextBody js_string | JsonBody payload

record response =
  status :: nat
  location :: "js_value option"
  body :: body

text \<open>
  \<open>json(data, {status})\<close> and \<open>redirect(url)\<close> of the framework: a response carrying
  the serialised payload with the given status (200 when none is given), and a 302
  response whose \<open>Location\<close> header is the url.
\<close>

definition json :: "payload \<Rightarrow> nat \<Rightarrow> response" where
  "json data st = \<lparr>status = st, location = None, body = JsonBody data\<rparr>"

definition redirect :: "js_string \<Rightarrow> response" where
  "redirect url = \<lparr>status = 302, location = Some (JString url), body = NoBody\<rparr>"

text \<open>
  The collaborators the route modules import: the session helpers \<open>getUserId\<close>,
  \<open>requireUserId\<close>, \<open>login\<close>, \<open>register\<close>, \<open>createUserSession\<close> and the ORM client
  \<open>db\<close>. Their code is not part of the route modules, so the handlers are modelled
  over any behaviour of theirs: each is the answer the collaborator gives to the
  arguments it is called with. \<open>requireUserId\<close> returns the user id or throws a
  response.
\<close>

record collaborators =
  getUserId :: "request \<Rightarrow> user_id option"
  requireUserId :: "request \<Rightarrow> response + user_id"
  login :: "js_string \<Rightarrow> js_string \<Rightarrow> user option"
  register :: "js_string \<Rightarrow> js_string \<Rightarrow> user option"
  user_findFirst :: "js_string \<Rightarrow> user option"
  joke_create :: "joke_create_data \<Rightarrow> joke"
  createUserSession :: "user_id \<Rightarrow> js_value \<Rightarrow> response"

text \<open>
  Modelled from the spec: \<open>requireUserId\<close> of \<open>~/utils/session.server\<close>, which is not
  among the sources. The spec gives \<open>requireUserId(request) -> UserId\<close> (fails with 401
  if absent), the identity being the one the session collaborator resolves for the
  request. The failure is a thrown response of status 401; the spec gives it no body.
\<close>

definition requireUserId_spec ::
  "(request \<Rightarrow> user_id option) \<Rightarrow> request \<Rightarrow> response + user_id" where
  "requireUserId_spec getCurrentUserId request =
     (case getCurrentUserId request of
        None \<Rightarrow> Inl \<lparr>status = 401, location = None, body = NoBody\<rparr>
      | Some userId \<Rightarrow> Inr userId)"

text \<open>
  A handler either returns a response or throws one. Next to its outcome the model keeps
  the calls the handler made to the outside, in order.
\<close>

datatype outcome = Returned response | Thrown response

datatype call =
    CallGetUserId
  | CallRequireUserId
  | CallFormData
  | CallConsoleLog js_value
  | CallJokeCreate joke_create_data
  | CallLogin js_string js_string
  | CallUserFindFirst js_string
  | CallRegister js_string js_string
  | CallCreateUserSession user_id js_value

fun is_JokeCreate :: "call \<Rightarrow> bool" where
  "is_JokeCreate (CallJokeCreate d) = True"
| "is_JokeCreate _ = False"

fun is_Register :: "call \<Rightarrow> bool" where
  "is_Register (CallRegister u p) = True"
| "is_Register _ = False"

section \<open>Route jokes/new\<close>

definition jokes_new_loader :: "collaborators \<Rightarrow> request \<Rightarrow> outcome \<times> call list" where
  "jokes_new_loader c request =
     (let userId = getUserId c request
      in if \<not> Boolean userId
         then (Thrown \<lparr>status = 401, location = None, body = TextBody (lit ''Unauthorized'')\<rparr>,
               [CallGetUserId])
         else (Returned (json EmptyObject 200), [CallGetUserId]))"

definition validateJokeName :: "js_string \<Rightarrow> js_string option" where
  "validateJokeName name =
     (if length name < 3 then Some (lit ''That joke's name is too short'') else None)"

definition validateJokeContent :: "js_string \<Rightarrow> js_string option" where
  "validateJokeContent content =
     (if length content < 10 then Some (lit ''That joke is too short'') else None)"

definition jokes_new_badRequest ::
  "(joke_FormErrorFields, joke_FormFields) ActionData \<Rightarrow> response" where
  "jokes_new_badRequest data = json (JokeActionsData data) 400"

definition jokes_new_action :: "collaborators \<Rightarrow> request \<Rightarrow> outcome \<times> call list" where
  "jokes_new_action c request =
     (case requireUserId c request of
        Inl r \<Rightarrow> (Thrown r, [CallRequireUserId])
      | Inr userId \<Rightarrow>
          let form = formData request;
              name = form_get form (lit ''name'');
              content = form_get form (lit ''content'')
          in case (as_string name, as_string content) of
               (Some name, Some content) \<Rightarrow>
                 let fieldErrors = \<lparr>errors_name = validateJokeName name,
                                    errors_content = validateJokeContent content\<rparr>;
                     fields = \<lparr>fields_name = name, fields_content = content\<rparr>
                 in if list_ex Boolean [errors_name fieldErrors, errors_content fieldErrors]
                    then (Returned (jokes_new_badRequest
                            \<lparr>formError = None, fieldErrors = Some fieldErrors,
                             fields' = Some fields\<rparr>),
                          [CallRequireUserId, CallFormData])
                    else
                      let data = \<lparr>data_name = name, data_content = content,
                                  data_jokesterId = userId\<rparr>;
                          joke = joke_create c data
                      in (Returned (redirect (lit ''/jokes/'' @ joke_id joke)),
                          [CallRequireUserId, CallFormData, CallJokeCreate data])
             | _ \<Rightarrow>
                 (Returned (jokes_new_badRequest
                    \<lparr>formError = Some (lit ''Form not submitted correctly.''),
                     fieldErrors = None, fields' = None\<rparr>),
                  [CallRequireUserId, CallFormData]))"

section \<open>Route login\<close>

definition validateUsername :: "js_value \<Rightarrow> js_string option" where
  "validateUsername username =
     (case as_string username of
        None \<Rightarrow> Some (lit ''Usernames must be at least 3 characters long'')
      | Some s \<Rightarrow>
          if length s < 3 then Some (lit ''Usernames must be at least 3 characters long'')
          else None)"

definition validatePassword :: "js_value \<Rightarrow> js_string option" where
  "validatePassword password =
     (case as_string password of
        None \<Rightarrow> Some (lit ''Passwords must be at least 6 characters long'')
      | Some s \<Rightarrow>
          if length s < 6 then Some (lit ''Passwords must be at least 6 characters long'')
          else None)"

text \<open>The default parameter \<open>url: any = '/jokes'\<close> replaces \<open>undefined\<close> only.\<close>

definition default_url :: "js_value \<Rightarrow> js_value" where
  "default_url url = (case url of JUndefined \<Rightarrow> JString (lit ''/jokes'') | _ \<Rightarrow> url)"

text \<open>
  The value \<open>validateUrl\<close> returns; its \<open>console.log(url)\<close> is the call
  \<open>CallConsoleLog (default_url url)\<close> in the trace of the handler.
\<close>

definition validateUrl :: "js_value \<Rightarrow> js_value" where
  "validateUrl url0 =
     (let url = default_url url0;
          urls = [JString (lit ''/jokes''), JString (lit ''/''),
                  JString (lit ''https://remix.run'')]
      in if array_includes urls url then url else JString (lit ''/jokes''))"

definition login_badRequest ::
  "(login_FormErrorFields, login_FormFields) ActionData \<Rightarrow> response" where
  "login_badRequest data = json (LoginActionData data) 400"

definition login_action :: "collaborators \<Rightarrow> request \<Rightarrow> outcome \<times> call list" where
  "login_action c request =
     (let form = formData request;
          loginType = form_get form (lit ''loginType'');
          username = form_get form (lit ''username'');
          password = form_get form (lit ''password'');
          redirectTo = validateUrl (form_get form (lit ''redirectTo''));
          t = [CallFormData, CallConsoleLog (default_url (form_get form (lit ''redirectTo'')))]
      in case (as_string loginType, as_string username, as_string password) of
           (Some loginType, Some username, Some password) \<Rightarrow>
             let fields = \<lparr>fields_loginType = loginType, fields_username = username,
                           fields_password = password\<rparr>;
                 fieldErrors = \<lparr>errors_username = validateUsername (JString username),
                                errors_password = validatePassword (JString password)\<rparr>
             in if list_ex Boolean [errors_username fieldErrors, errors_password fieldErrors]
                then (Returned (login_badRequest
                        \<lparr>formError = None, fieldErrors = Some fieldErrors,
                         fields' = Some fields\<rparr>), t)
                else if loginType = lit ''login'' then
                  (case login c username password of
                     None \<Rightarrow>
                       (Returned (login_badRequest
                          \<lparr>formError = Some (lit ''Username/Password combination is incorrect.''),
                           fieldErrors = None, fields' = Some fields\<rparr>),
                        t @ [CallLogin username password])
                   | Some u \<Rightarrow>
                       (Returned (createUserSession c (user_id u) redirectTo),
                        t @ [CallLogin username password,
                             CallCreateUserSession (user_id u) redirectTo]))
                else if loginType = lit ''register'' then
                  (case user_findFirst c username of
                     Some userExists \<Rightarrow>
                       (Returned (login_badRequest
                          \<lparr>formError = Some (lit ''User with username '' @ username
                                               @ lit '' already exists''),
                           fieldErrors = None, fields' = Some fields\<rparr>),
                        t @ [CallUserFindFirst username])
                   | None \<Rightarrow>
                       (case register c username password of
                          None \<Rightarrow>
                            (Returned (login_badRequest
                               \<lparr>formError = Some (lit ''Not implemented''),
                                fieldErrors = None, fields' = Some fields\<rparr>),
                             t @ [CallUserFindFirst username, CallRegister username password])
                        | Some u \<Rightarrow>
                            (Returned (createUserSession c (user_id u) redirectTo),
                             t @ [CallUserFindFirst username, CallRegister username password,
                                  CallCreateUserSession (user_id u) redirectTo])))
                else
                  (Returned (login_badRequest
                     \<lparr>formError = Some (lit ''Login type invalid''),
                      fieldErrors = None, fields' = Some fields\<rparr>), t)
         | _ \<Rightarrow>
             (Returned (login_badRequest
                \<lparr>formError = Some (lit ''Form not submitted correctly.''),
                 fieldErrors = None, fields' = None\<rparr>), t))"

section \<open>A test double\<close>

text \<open>
  Collaborators with a fixed behaviour, to run the handlers on concrete requests: the
  session of cookie \<open>kody\<close> belongs to user \<open>u1\<close>, whose password is
  \<open>twixrox\<close>; the usernames \<open>kody\<close> and \<open>bob\<close> are taken; registering \<open>ghost\<close>
  yields no user.
\<close>

definition stub_collaborators :: collaborators where
  "stub_collaborators =
     \<lparr>getUserId = (\<lambda>r. if cookie r = lit ''kody'' then Some (lit ''u1'') else None),
      requireUserId =
        requireUserId_spec (\<lambda>r. if cookie r = lit ''kody'' then Some (lit ''u1'') else None),
      login = (\<lambda>u p. if u = lit ''kody'' \<and> p = lit ''twixrox''
                      then Some \<lparr>user_id = lit ''u1'', user_username = u\<rparr> else None),
      register = (\<lambda>u p. if u = lit ''ghost'' then None
                         else Some \<lparr>user_id = lit ''u2'', user_username = u\<rparr>),
      user_findFirst = (\<lambda>u. if u = lit ''kody'' \<or> u = lit ''bob''
                             then Some \<lparr>user_id = lit ''u0'', user_username = u\<rparr> else None),
      joke_create = (\<lambda>d. \<lparr>joke_id = lit ''j1'', joke_name = data_name d,
                           joke_content = data_content d,
                           joke_jokesterId = data_jokesterId d\<rparr>),
      createUserSession = (\<lambda>uid url. \<lparr>status = 302, location = Some url, body = NoBody\<rparr>)\<rparr>"

definition request_of :: "string \<Rightarrow> (string \<times> string) list \<Rightarrow> request" where
  "request_of ck kvs =
     \<lparr>cookie = lit ck, formData = map (\<lambda>(k, v). (lit k, EntryString (lit v))) kvs\<rparr>"

section \<open>Basic facts\<close>

lemma length_lit: "length (lit s) = length s"
  by (simp add: lit_def)

lemma lit_eq_Nil: "lit s = [] \<longleftrightarrow> s = []"
  by (simp add: lit_def)

lemma Nil_eq_lit: "[] = lit s \<longleftrightarrow> s = []"
  by (auto simp: lit_def)

lemma unat_of_char: "unat (of_char c :: 16 word) = of_char c"
proof -
  have "(of_char c :: nat) < 2 ^ 16"
    by (rule less_trans [OF nat_of_char_less_256]) simp
  then have "unat (of_nat (of_char c) :: 16 word) = of_char c"
    by (simp add: unat_of_nat)
  then show ?thesis by (simp only: of_nat_of_char)
qed

lemma of_char_word_inject: "(of_char c :: 16 word) = of_char d \<longleftrightarrow> c = d"
proof
  assume "(of_char c :: 16 word) = of_char d"
  then have "unat (of_char c :: 16 word) = unat (of_char d :: 16 word)" by simp
  then have "(of_char c :: nat) = of_char d" by (simp only: unat_of_char)
  then show "c = d" using inj_of_char [where ?'a = nat] by (simp add: inj_def)
qed simp

lemma lit_inject: "lit s = lit t \<longleftrightarrow> s = t"
  unfolding lit_def
  by (rule inj_map_eq_map) (simp add: inj_def of_char_word_inject)

lemma lit_append: "lit (s @ t) = lit s @ lit t"
  by (simp add: lit_def)

section \<open>The handlers, case by case\<close>

lemma as_string_None: "as_string v = None \<longleftrightarrow> (\<forall>s. v \<noteq> JString s)"
  by (cases v) simp_all

lemma Boolean_validateJokeName: "Boolean (validateJokeName name) \<longleftrightarrow> length name < 3"
  by (simp add: validateJokeName_def lit_eq_Nil)

lemma Boolean_validateJokeContent: "Boolean (validateJokeContent content) \<longleftrightarrow> length content < 10"
  by (simp add: validateJokeContent_def lit_eq_Nil)

lemma jokes_new_action_thrown:
  "requireUserId c request = Inl r \<Longrightarrow>
     jokes_new_action c request = (Thrown r, [CallRequireUserId])"
  by (simp add: jokes_new_action_def)

lemma jokes_new_action_malformed:
  "requireUserId c request = Inr userId \<Longrightarrow>
   as_string (form_get (formData request) (lit ''name'')) = None
     \<or> as_string (form_get (formData request) (lit ''content'')) = None \<Longrightarrow>
   jokes_new_action c request =
     (Returned (jokes_new_badRequest
        \<lparr>formError = Some (lit ''Form not submitted correctly.''),
         fieldErrors = None, fields' = None\<rparr>),
      [CallRequireUserId, CallFormData])"
  by (auto simp: jokes_new_action_def Let_def split: option.splits)

lemma jokes_new_action_strings:
  "requireUserId c request = Inr userId \<Longrightarrow>
   form_get (formData request) (lit ''name'') = JString name \<Longrightarrow>
   form_get (formData request) (lit ''content'') = JString content \<Longrightarrow>
   jokes_new_action c request =
     (if length name < 3 \<or> length content < 10
      then (Returned (jokes_new_badRequest
              \<lparr>formError = None,
               fieldErrors = Some \<lparr>errors_name = validateJokeName name,
                                   errors_content = validateJokeContent content\<rparr>,
               fields' = Some \<lparr>fields_name = name, fields_content = content\<rparr>\<rparr>),
            [CallRequireUserId, CallFormData])
      else (Returned (redirect (lit ''/jokes/'' @ joke_id (joke_create c
              \<lparr>data_name = name, data_content = content, data_jokesterId = userId\<rparr>))),
            [CallRequireUserId, CallFormData,
             CallJokeCreate \<lparr>data_name = name, data_content = content,
                             data_jokesterId = userId\<rparr>]))"
  by (simp add: jokes_new_action_def Let_def Boolean_validateJokeName Boolean_validateJokeContent)

lemma Boolean_validateUsername: "Boolean (validateUsername v) \<longleftrightarrow> validateUsername v \<noteq> None"
  by (auto simp: validateUsername_def lit_eq_Nil split: option.splits)

lemma Boolean_validatePassword: "Boolean (validatePassword v) \<longleftrightarrow> validatePassword v \<noteq> None"
  by (auto simp: validatePassword_def lit_eq_Nil split: option.splits)

lemma lit_login_neq_register: "lit ''register'' \<noteq> lit ''login''"
  by (simp add: lit_inject)

section \<open>The field validators\<close>

text \<open>
  C7: for every string \<open>name\<close>, \<open>validateJokeName\<close> returns a non-empty message when
  \<open>name.length < 3\<close> and no message when \<open>name.length >= 3\<close>; for every string
  \<open>content\<close>, \<open>validateJokeContent\<close> returns a non-empty message when
  \<open>content.length < 10\<close> and no message otherwise.
\<close>

theorem validateJoke_length:
  "(length name < 3 \<longrightarrow> (\<exists>m. validateJokeName name = Some m \<and> m \<noteq> []))
   \<and> (3 \<le> length name \<longrightarrow> validateJokeName name = None)
   \<and> (length content < 10 \<longrightarrow> (\<exists>m. validateJokeContent content = Some m \<and> m \<noteq> []))
   \<and> (10 \<le> length content \<longrightarrow> validateJokeContent content = None)"
  by (simp add: validateJokeName_def validateJokeContent_def lit_eq_Nil)

theorem validateJoke_length_witness:
  "(\<exists>m. validateJokeName (lit ''ab'') = Some m \<and> m \<noteq> [])
   \<and> validateJokeName (lit ''abc'') = None
   \<and> (\<exists>m. validateJokeContent (lit ''123456789'') = Some m \<and> m \<noteq> [])
   \<and> validateJokeContent (lit ''1234567890'') = None"
  using validateJoke_length [of "lit ''ab''" "lit ''123456789''"]
        validateJoke_length [of "lit ''abc''" "lit ''1234567890''"]
  by (simp add: length_lit)

text \<open>
  C8: on every value, \<open>validateUsername\<close> returns a non-empty message when the value is
  not a string or is a string shorter than 3, and no message otherwise;
  \<open>validatePassword\<close> does the same with the bound 6. Both are functions of their
  argument alone, with a result for every value.
\<close>

theorem validateUsername_validatePassword:
  "(((\<forall>s. v \<noteq> JString s) \<or> (\<exists>s. v = JString s \<and> length s < 3))
      \<longrightarrow> (\<exists>m. validateUsername v = Some m \<and> m \<noteq> []))
   \<and> ((\<exists>s. v = JString s \<and> 3 \<le> length s) \<longrightarrow> validateUsername v = None)
   \<and> (((\<forall>s. w \<noteq> JString s) \<or> (\<exists>s. w = JString s \<and> length s < 6))
      \<longrightarrow> (\<exists>m. validatePassword w = Some m \<and> m \<noteq> []))
   \<and> ((\<exists>s. w = JString s \<and> 6 \<le> length s) \<longrightarrow> validatePassword w = None)"
  by (cases v; cases w) (auto simp: validateUsername_def validatePassword_def lit_eq_Nil)

theorem validateUsername_validatePassword_witness:
  "(\<exists>m. validateUsername JNull = Some m \<and> m \<noteq> [])
   \<and> (\<exists>m. validateUsername (JString (lit ''ab'')) = Some m \<and> m \<noteq> [])
   \<and> validateUsername (JString (lit ''bob'')) = None
   \<and> (\<exists>m. validatePassword (JObject 0) = Some m \<and> m \<noteq> [])
   \<and> (\<exists>m. validatePassword (JString (lit ''12345'')) = Some m \<and> m \<noteq> [])
   \<and> validatePassword (JString (lit ''secret1'')) = None"
  using validateUsername_validatePassword [of JNull "JObject 0"]
        validateUsername_validatePassword [of "JString (lit ''ab'')" "JString (lit ''12345'')"]
        validateUsername_validatePassword [of "JString (lit ''bob'')" "JString (lit ''secret1'')"]
  by (simp add: length_lit)

section \<open>The redirect target\<close>

text \<open>
  C1: for every value \<open>x\<close>, \<open>validateUrl x\<close> is one of \<open>'/jokes'\<close>, \<open>'/'\<close> and
  \<open>'https://remix.run'\<close>; a value that is not one of the three yields \<open>'/jokes'\<close>, one
  of the three is returned as it is, and an absent value (\<open>undefined\<close>, or the
  \<open>null\<close> of a missing form field) and the empty string yield \<open>'/jokes'\<close>.
\<close>

theorem validateUrl_allow_list:
  "validateUrl x \<in> {JString (lit ''/jokes''), JString (lit ''/''), JString (lit ''https://remix.run'')}
   \<and> (x \<notin> {JString (lit ''/jokes''), JString (lit ''/''), JString (lit ''https://remix.run'')}
        \<longrightarrow> validateUrl x = JString (lit ''/jokes''))
   \<and> (x \<in> {JString (lit ''/jokes''), JString (lit ''/''), JString (lit ''https://remix.run'')}
        \<longrightarrow> validateUrl x = x)
   \<and> validateUrl JUndefined = JString (lit ''/jokes'')
   \<and> validateUrl JNull = JString (lit ''/jokes'')
   \<and> validateUrl (JString []) = JString (lit ''/jokes'')"
  by (cases x) (auto simp: validateUrl_def default_url_def array_includes_def lit_eq_Nil Nil_eq_lit)

theorem validateUrl_allow_list_witness:
  "validateUrl (JString (lit ''https://evil.example'')) = JString (lit ''/jokes'')
   \<and> validateUrl (JString (lit ''https://remix.run'')) = JString (lit ''https://remix.run'')
   \<and> validateUrl (JString (lit ''/'')) = JString (lit ''/'')"
  using validateUrl_allow_list [of "JString (lit ''https://evil.example'')"]
        validateUrl_allow_list [of "JString (lit ''https://remix.run'')"]
        validateUrl_allow_list [of "JString (lit ''/'')"]
  by (simp add: lit_inject)

section \<open>The loader of jokes/new\<close>

text \<open>
  C10: the loader of the new-joke route throws a response of status 401 when the session
  helper resolves no user id, and returns the empty JSON object (status 200) when it
  resolves one. The loader tests \<open>!userId\<close>, so a user id that is present is a non-empty
  string.
\<close>

theorem jokes_new_loader_requires_user:
  "(getUserId c request = None \<longrightarrow>
      jokes_new_loader c request =
        (Thrown \<lparr>status = 401, location = None, body = TextBody (lit ''Unauthorized'')\<rparr>,
         [CallGetUserId]))
   \<and> (\<forall>userId. getUserId c request = Some userId \<and> userId \<noteq> [] \<longrightarrow>
      jokes_new_loader c request =
        (Returned \<lparr>status = 200, location = None, body = JsonBody EmptyObject\<rparr>,
         [CallGetUserId]))"
  by (simp add: jokes_new_loader_def json_def)

theorem jokes_new_loader_requires_user_witness:
  "jokes_new_loader stub_collaborators (request_of ''nobody'' []) =
     (Thrown \<lparr>status = 401, location = None, body = TextBody (lit ''Unauthorized'')\<rparr>,
      [CallGetUserId])
   \<and> jokes_new_loader stub_collaborators (request_of ''kody'' []) =
     (Returned \<lparr>status = 200, location = None, body = JsonBody EmptyObject\<rparr>,
      [CallGetUserId])"
  using jokes_new_loader_requires_user [of stub_collaborators "request_of ''nobody'' []"]
        jokes_new_loader_requires_user [of stub_collaborators "request_of ''kody'' []"]
  by (simp add: stub_collaborators_def request_of_def lit_inject lit_eq_Nil)

section \<open>The action of jokes/new\<close>

text \<open>
  C5: whenever \<open>requireUserId\<close> throws, the action of jokes/new throws the same response
  and has made no other call: the form body is not read and the joke store is not called.
  With \<open>requireUserId\<close> as the spec describes it, a request with no resolved user
  identity is answered by a thrown response of status 401.
\<close>

theorem jokes_new_action_unauthorized:
  "(\<forall>r. requireUserId c request = Inl r \<longrightarrow>
      jokes_new_action c request = (Thrown r, [CallRequireUserId]))
   \<and> (requireUserId c request = requireUserId_spec (getUserId c) request
      \<and> getUserId c request = None \<longrightarrow>
        (\<exists>r. jokes_new_action c request = (Thrown r, [CallRequireUserId]) \<and> status r = 401)
        \<and> CallFormData \<notin> set (snd (jokes_new_action c request))
        \<and> \<not> list_ex is_JokeCreate (snd (jokes_new_action c request)))"
  by (simp add: jokes_new_action_thrown requireUserId_spec_def)

theorem jokes_new_action_unauthorized_witness:
  "(\<exists>r. jokes_new_action stub_collaborators
           (request_of ''nobody'' [(''name'', ''abc''), (''content'', ''1234567890'')])
         = (Thrown r, [CallRequireUserId]) \<and> status r = 401)"
  using jokes_new_action_unauthorized [of stub_collaborators
          "request_of ''nobody'' [(''name'', ''abc''), (''content'', ''1234567890'')]"]
  by (simp add: stub_collaborators_def request_of_def lit_inject)

text \<open>
  C2: for an authenticated submission whose \<open>name\<close> and \<open>content\<close> are strings of
  length at least 3 and at least 10, the action makes exactly one \<open>db.joke.create\<close> call,
  with the submitted name and content and the user's id as \<open>jokesterId\<close>, and returns
  a redirect to \<open>/jokes/<id of the new joke>\<close>. When a field is not a string or fails its
  validator, the action makes no \<open>db.joke.create\<close> call.
\<close>

theorem jokes_new_action_create_once:
  "(requireUserId c request = Inr userId
    \<and> form_get (formData request) (lit ''name'') = JString name
    \<and> form_get (formData request) (lit ''content'') = JString content
    \<and> 3 \<le> length name \<and> 10 \<le> length content \<longrightarrow>
      jokes_new_action c request =
        (Returned (redirect (lit ''/jokes/'' @ joke_id (joke_create c
            \<lparr>data_name = name, data_content = content, data_jokesterId = userId\<rparr>))),
         [CallRequireUserId, CallFormData,
          CallJokeCreate \<lparr>data_name = name, data_content = content, data_jokesterId = userId\<rparr>])
      \<and> filter is_JokeCreate (snd (jokes_new_action c request)) =
         [CallJokeCreate \<lparr>data_name = name, data_content = content, data_jokesterId = userId\<rparr>])
   \<and> ((\<forall>s. form_get (formData request) (lit ''name'') \<noteq> JString s)
       \<or> (\<forall>s. form_get (formData request) (lit ''content'') \<noteq> JString s)
       \<or> (\<exists>s. form_get (formData request) (lit ''name'') = JString s \<and> length s < 3)
       \<or> (\<exists>s. form_get (formData request) (lit ''content'') = JString s \<and> length s < 10) \<longrightarrow>
      filter is_JokeCreate (snd (jokes_new_action c request)) = [])"
proof (intro conjI impI)
  assume h: "requireUserId c request = Inr userId
    \<and> form_get (formData request) (lit ''name'') = JString name
    \<and> form_get (formData request) (lit ''content'') = JString content
    \<and> 3 \<le> length name \<and> 10 \<le> length content"
  then show eq: "jokes_new_action c request =
        (Returned (redirect (lit ''/jokes/'' @ joke_id (joke_create c
            \<lparr>data_name = name, data_content = content, data_jokesterId = userId\<rparr>))),
         [CallRequireUserId, CallFormData,
          CallJokeCreate \<lparr>data_name = name, data_content = content, data_jokesterId = userId\<rparr>])"
    by (simp add: jokes_new_action_strings)
  show "filter is_JokeCreate (snd (jokes_new_action c request)) =
         [CallJokeCreate \<lparr>data_name = name, data_content = content, data_jokesterId = userId\<rparr>]"
    by (simp add: eq)
next
  assume rej: "(\<forall>s. form_get (formData request) (lit ''name'') \<noteq> JString s)
       \<or> (\<forall>s. form_get (formData request) (lit ''content'') \<noteq> JString s)
       \<or> (\<exists>s. form_get (formData request) (lit ''name'') = JString s \<and> length s < 3)
       \<or> (\<exists>s. form_get (formData request) (lit ''content'') = JString s \<and> length s < 10)"
  show "filter is_JokeCreate (snd (jokes_new_action c request)) = []"
  proof (cases "requireUserId c request")
    case (Inl r)
    then show ?thesis by (simp add: jokes_new_action_thrown)
  next
    case (Inr u)
    show ?thesis
    proof (cases "as_string (form_get (formData request) (lit ''name'')) = None
                  \<or> as_string (form_get (formData request) (lit ''content'')) = None")
      case True
      with Inr show ?thesis by (simp add: jokes_new_action_malformed)
    next
      case False
      then obtain n ct where
        n: "form_get (formData request) (lit ''name'') = JString n" and
        ct: "form_get (formData request) (lit ''content'') = JString ct"
        by (auto simp: as_string_None)
      from rej n ct have "length n < 3 \<or> length ct < 10" by auto
      with Inr n ct show ?thesis by (simp add: jokes_new_action_strings)
    qed
  qed
qed

theorem jokes_new_action_create_once_witness:
  "jokes_new_action stub_collaborators
     (request_of ''kody'' [(''name'', ''abc''), (''content'', ''1234567890'')]) =
     (Returned (redirect (lit ''/jokes/j1'')),
      [CallRequireUserId, CallFormData,
       CallJokeCreate \<lparr>data_name = lit ''abc'', data_content = lit ''1234567890'',
                       data_jokesterId = lit ''u1''\<rparr>])
   \<and> filter is_JokeCreate (snd (jokes_new_action stub_collaborators
        (request_of ''kody'' [(''name'', ''ab''), (''content'', ''1234567890'')]))) = []
   \<and> filter is_JokeCreate (snd (jokes_new_action stub_collaborators
        (request_of ''kody'' [(''name'', ''abc'')]))) = []"
  using jokes_new_action_create_once [of stub_collaborators
          "request_of ''kody'' [(''name'', ''abc''), (''content'', ''1234567890'')]"
          "lit ''u1''" "lit ''abc''" "lit ''1234567890''"]
        jokes_new_action_create_once [of stub_collaborators
          "request_of ''kody'' [(''name'', ''ab''), (''content'', ''1234567890'')]"]
        jokes_new_action_create_once [of stub_collaborators
          "request_of ''kody'' [(''name'', ''abc'')]"]
  by (simp add: stub_collaborators_def request_of_def requireUserId_spec_def form_get_def
        lit_inject length_lit lit_append [symmetric])

text \<open>
  C6: for an authenticated submission whose \<open>name\<close> and \<open>content\<close> are strings, if a
  validator produces a message the action returns status 400 with a payload of
  \<open>fieldErrors\<close> and the echoed \<open>fields\<close>: each entry of \<open>fieldErrors\<close> is what the
  field's validator returned, so it is set exactly when that validator failed; no
  \<open>db.joke.create\<close> call is made.
\<close>

theorem jokes_new_action_field_errors:
  "requireUserId c request = Inr userId
   \<and> form_get (formData request) (lit ''name'') = JString name
   \<and> form_get (formData request) (lit ''content'') = JString content
   \<and> (validateJokeName name \<noteq> None \<or> validateJokeContent content \<noteq> None) \<longrightarrow>
     (\<exists>errors. jokes_new_action c request =
        (Returned \<lparr>status = 400, location = None,
                   body = JsonBody (JokeActionsData
                     \<lparr>formError = None, fieldErrors = Some errors,
                      fields' = Some \<lparr>fields_name = name, fields_content = content\<rparr>\<rparr>)\<rparr>,
         [CallRequireUserId, CallFormData])
        \<and> errors_name errors = validateJokeName name
        \<and> errors_content errors = validateJokeContent content
        \<and> (errors_name errors \<noteq> None \<longleftrightarrow> length name < 3)
        \<and> (errors_content errors \<noteq> None \<longleftrightarrow> length content < 10))
     \<and> \<not> list_ex is_JokeCreate (snd (jokes_new_action c request))"
proof (intro impI)
  assume h: "requireUserId c request = Inr userId
   \<and> form_get (formData request) (lit ''name'') = JString name
   \<and> form_get (formData request) (lit ''content'') = JString content
   \<and> (validateJokeName name \<noteq> None \<or> validateJokeContent content \<noteq> None)"
  then have short: "length name < 3 \<or> length content < 10"
    by (auto simp: validateJokeName_def validateJokeContent_def split: if_splits)
  with h have eq: "jokes_new_action c request =
     (Returned (jokes_new_badRequest
        \<lparr>formError = None,
         fieldErrors = Some \<lparr>errors_name = validateJokeName name,
                             errors_content = validateJokeContent content\<rparr>,
         fields' = Some \<lparr>fields_name = name, fields_content = content\<rparr>\<rparr>),
      [CallRequireUserId, CallFormData])"
    by (simp add: jokes_new_action_strings)
  have "(validateJokeName name \<noteq> None \<longleftrightarrow> length name < 3)
      \<and> (validateJokeContent content \<noteq> None \<longleftrightarrow> length content < 10)"
    by (simp add: validateJokeName_def validateJokeContent_def)
  then show "(\<exists>errors. jokes_new_action c request =
        (Returned \<lparr>status = 400, location = None,
                   body = JsonBody (JokeActionsData
                     \<lparr>formError = None, fieldErrors = Some errors,
                      fields' = Some \<lparr>fields_name = name, fields_content = content\<rparr>\<rparr>)\<rparr>,
         [CallRequireUserId, CallFormData])
        \<and> errors_name errors = validateJokeName name
        \<and> errors_content errors = validateJokeContent content
        \<and> (errors_name errors \<noteq> None \<longleftrightarrow> length name < 3)
        \<and> (errors_content errors \<noteq> None \<longleftrightarrow> length content < 10))
     \<and> \<not> list_ex is_JokeCreate (snd (jokes_new_action c request))"
    by (simp add: eq jokes_new_badRequest_def json_def)
qed

theorem jokes_new_action_field_errors_witness:
  "jokes_new_action stub_collaborators
     (request_of ''kody'' [(''name'', ''ab''), (''content'', ''1234567890'')]) =
     (Returned \<lparr>status = 400, location = None,
                body = JsonBody (JokeActionsData
                  \<lparr>formError = None,
                   fieldErrors = Some \<lparr>errors_name = Some (lit ''That joke's name is too short''),
                                       errors_content = None\<rparr>,
                   fields' = Some \<lparr>fields_name = lit ''ab'',
                                   fields_content = lit ''1234567890''\<rparr>\<rparr>)\<rparr>,
      [CallRequireUserId, CallFormData])"
  using jokes_new_action_field_errors [of stub_collaborators
          "request_of ''kody'' [(''name'', ''ab''), (''content'', ''1234567890'')]"
          "lit ''u1''" "lit ''ab''" "lit ''1234567890''"]
  by (auto simp: stub_collaborators_def request_of_def requireUserId_spec_def form_get_def
        lit_inject length_lit validateJokeName_def validateJokeContent_def)

section \<open>The action of login\<close>

text \<open>
  C9: when the three fields of a login submission are strings and the username or the
  password validator produces a message, the action returns status 400 and the echoed
  \<open>fields\<close> of the payload hold the submitted \<open>loginType\<close>, \<open>username\<close> and the
  \<open>password\<close> as it was submitted.
\<close>

theorem login_action_echoes_password:
  "form_get (formData request) (lit ''loginType'') = JString loginType
   \<and> form_get (formData request) (lit ''username'') = JString username
   \<and> form_get (formData request) (lit ''password'') = JString password
   \<and> (validateUsername (JString username) \<noteq> None \<or> validatePassword (JString password) \<noteq> None) \<longrightarrow>
     login_action c request =
       (Returned \<lparr>status = 400, location = None,
                  body = JsonBody (LoginActionData
                    \<lparr>formError = None,
                     fieldErrors = Some \<lparr>errors_username = validateUsername (JString username),
                                         errors_password = validatePassword (JString password)\<rparr>,
                     fields' = Some \<lparr>fields_loginType = loginType, fields_username = username,
                                     fields_password = password\<rparr>\<rparr>)\<rparr>,
        [CallFormData, CallConsoleLog (default_url (form_get (formData request) (lit ''redirectTo'')))])"
  by (auto simp: login_action_def Let_def login_badRequest_def json_def
        Boolean_validateUsername Boolean_validatePassword)

theorem login_action_echoes_password_witness:
  "login_action stub_collaborators
     (request_of '''' [(''loginType'', ''login''), (''username'', ''kody''), (''password'', ''twix'')]) =
       (Returned \<lparr>status = 400, location = None,
                  body = JsonBody (LoginActionData
                    \<lparr>formError = None,
                     fieldErrors = Some \<lparr>errors_username = None,
                        errors_password = Some (lit ''Passwords must be at least 6 characters long'')\<rparr>,
                     fields' = Some \<lparr>fields_loginType = lit ''login'', fields_username = lit ''kody'',
                                     fields_password = lit ''twix''\<rparr>\<rparr>)\<rparr>,
        [CallFormData, CallConsoleLog JNull])"
  using login_action_echoes_password [of
          "request_of '''' [(''loginType'', ''login''), (''username'', ''kody''), (''password'', ''twix'')]"
          "lit ''login''" "lit ''kody''" "lit ''twix''" stub_collaborators]
  by (simp add: request_of_def form_get_def lit_inject length_lit default_url_def
        validateUsername_def validatePassword_def)

text \<open>
  C3: for a submission with \<open>loginType\<close> \<open>'login'\<close> whose username and password pass
  validation: if \<open>login\<close> returns no user, the action returns status 400 with one fixed
  form error, the same whatever made the credentials fail, and no field errors; if
  \<open>login\<close> returns a user, the action returns what \<open>createUserSession\<close> gives for that
  user's id and the validated redirect target.
\<close>

theorem login_action_login:
  "form_get (formData request) (lit ''loginType'') = JString (lit ''login'')
   \<and> form_get (formData request) (lit ''username'') = JString username
   \<and> form_get (formData request) (lit ''password'') = JString password
   \<and> validateUsername (JString username) = None
   \<and> validatePassword (JString password) = None \<longrightarrow>
     (login c username password = None \<longrightarrow>
        login_action c request =
          (Returned \<lparr>status = 400, location = None,
                     body = JsonBody (LoginActionData
                       \<lparr>formError = Some (lit ''Username/Password combination is incorrect.''),
                        fieldErrors = None,
                        fields' = Some \<lparr>fields_loginType = lit ''login'',
                                        fields_username = username,
                                        fields_password = password\<rparr>\<rparr>)\<rparr>,
           [CallFormData,
            CallConsoleLog (default_url (form_get (formData request) (lit ''redirectTo''))),
            CallLogin username password]))
     \<and> (\<forall>u. login c username password = Some u \<longrightarrow>
        login_action c request =
          (Returned (createUserSession c (user_id u)
                       (validateUrl (form_get (formData request) (lit ''redirectTo'')))),
           [CallFormData,
            CallConsoleLog (default_url (form_get (formData request) (lit ''redirectTo''))),
            CallLogin username password,
            CallCreateUserSession (user_id u)
              (validateUrl (form_get (formData request) (lit ''redirectTo'')))]))"
  by (simp add: login_action_def Let_def login_badRequest_def json_def)

theorem login_action_login_witness:
  "login_action stub_collaborators
     (request_of '''' [(''loginType'', ''login''), (''username'', ''nouser''),
                       (''password'', ''whatever'')]) =
     (Returned \<lparr>status = 400, location = None,
                body = JsonBody (LoginActionData
                  \<lparr>formError = Some (lit ''Username/Password combination is incorrect.''),
                   fieldErrors = None,
                   fields' = Some \<lparr>fields_loginType = lit ''login'',
                                   fields_username = lit ''nouser'',
                                   fields_password = lit ''whatever''\<rparr>\<rparr>)\<rparr>,
      [CallFormData, CallConsoleLog JNull, CallLogin (lit ''nouser'') (lit ''whatever'')])
   \<and> login_action stub_collaborators
     (request_of '''' [(''loginType'', ''login''), (''username'', ''kody''),
                       (''password'', ''twixrox''), (''redirectTo'', ''https://evil.example'')]) =
     (Returned \<lparr>status = 302, location = Some (JString (lit ''/jokes'')), body = NoBody\<rparr>,
      [CallFormData, CallConsoleLog (JString (lit ''https://evil.example'')),
       CallLogin (lit ''kody'') (lit ''twixrox''),
       CallCreateUserSession (lit ''u1'') (JString (lit ''/jokes''))])"
  using login_action_login [of
          "request_of '''' [(''loginType'', ''login''), (''username'', ''nouser''),
                            (''password'', ''whatever'')]"
          "lit ''nouser''" "lit ''whatever''" stub_collaborators]
        login_action_login [of
          "request_of '''' [(''loginType'', ''login''), (''username'', ''kody''),
                            (''password'', ''twixrox''), (''redirectTo'', ''https://evil.example'')]"
          "lit ''kody''" "lit ''twixrox''" stub_collaborators]
  by (simp add: stub_collaborators_def request_of_def form_get_def lit_inject length_lit
        default_url_def validateUrl_def array_includes_def
        validateUsername_def validatePassword_def)

text \<open>
  C4: for a submission with \<open>loginType\<close> \<open>'register'\<close> whose username and password
  pass validation: if \<open>db.user.findFirst\<close> finds a user of that username, the action
  returns status 400 with a form error ending in \<open>already exists\<close> and does not call
  \<open>register\<close>; otherwise it calls \<open>register\<close> with the username and password, and
  returns what \<open>createUserSession\<close> gives for the new user's id and the validated
  redirect target, or, when \<open>register\<close> yields no user, status 400 with the form error
  \<open>Not implemented\<close>.
\<close>

theorem login_action_register:
  "form_get (formData request) (lit ''loginType'') = JString (lit ''register'')
   \<and> form_get (formData request) (lit ''username'') = JString username
   \<and> form_get (formData request) (lit ''password'') = JString password
   \<and> validateUsername (JString username) = None
   \<and> validatePassword (JString password) = None \<longrightarrow>
     (\<forall>userExists. user_findFirst c username = Some userExists \<longrightarrow>
        login_action c request =
          (Returned \<lparr>status = 400, location = None,
                     body = JsonBody (LoginActionData
                       \<lparr>formError = Some (lit ''User with username '' @ username
                                            @ lit '' already exists''),
                        fieldErrors = None,
                        fields' = Some \<lparr>fields_loginType = lit ''register'',
                                        fields_username = username,
                                        fields_password = password\<rparr>\<rparr>)\<rparr>,
           [CallFormData,
            CallConsoleLog (default_url (form_get (formData request) (lit ''redirectTo''))),
            CallUserFindFirst username])
        \<and> (\<exists>pre. lit ''User with username '' @ username @ lit '' already exists''
                     = pre @ lit ''already exists'')
        \<and> filter is_Register (snd (login_action c request)) = [])
     \<and> (user_findFirst c username = None \<longrightarrow>
          (\<forall>u. register c username password = Some u \<longrightarrow>
             login_action c request =
               (Returned (createUserSession c (user_id u)
                            (validateUrl (form_get (formData request) (lit ''redirectTo'')))),
                [CallFormData,
                 CallConsoleLog (default_url (form_get (formData request) (lit ''redirectTo''))),
                 CallUserFindFirst username,
                 CallRegister username password,
                 CallCreateUserSession (user_id u)
                   (validateUrl (form_get (formData request) (lit ''redirectTo'')))]))
          \<and> (register c username password = None \<longrightarrow>
             login_action c request =
               (Returned \<lparr>status = 400, location = None,
                          body = JsonBody (LoginActionData
                            \<lparr>formError = Some (lit ''Not implemented''),
                             fieldErrors = None,
                             fields' = Some \<lparr>fields_loginType = lit ''register'',
                                             fields_username = username,
                                             fields_password = password\<rparr>\<rparr>)\<rparr>,
                [CallFormData,
                 CallConsoleLog (default_url (form_get (formData request) (lit ''redirectTo''))),
                 CallUserFindFirst username,
                 CallRegister username password])))"
proof -
  have "lit '' already exists'' = lit '' '' @ lit ''already exists''"
    by (simp add: lit_append [symmetric])
  then have pre: "\<exists>pre. lit ''User with username '' @ username @ lit '' already exists''
                     = pre @ lit ''already exists''"
    by (intro exI [of _ "lit ''User with username '' @ username @ lit '' ''"]) simp
  show ?thesis
    using pre
    by (simp add: login_action_def Let_def login_badRequest_def json_def lit_login_neq_register)
qed

theorem login_action_register_witness:
  "login_action stub_collaborators
     (request_of '''' [(''loginType'', ''register''), (''username'', ''bob''),
                       (''password'', ''secret1'')]) =
     (Returned \<lparr>status = 400, location = None,
                body = JsonBody (LoginActionData
                  \<lparr>formError = Some (lit ''User with username bob already exists''),
                   fieldErrors = None,
                   fields' = Some \<lparr>fields_loginType = lit ''register'',
                                   fields_username = lit ''bob'',
                                   fields_password = lit ''secret1''\<rparr>\<rparr>)\<rparr>,
      [CallFormData, CallConsoleLog JNull, CallUserFindFirst (lit ''bob'')])
   \<and> login_action stub_collaborators
     (request_of '''' [(''loginType'', ''register''), (''username'', ''alice''),
                       (''password'', ''secret1''), (''redirectTo'', ''/'')]) =
     (Returned \<lparr>status = 302, location = Some (JString (lit ''/'')), body = NoBody\<rparr>,
      [CallFormData, CallConsoleLog (JString (lit ''/'')),
       CallUserFindFirst (lit ''alice''), CallRegister (lit ''alice'') (lit ''secret1''),
       CallCreateUserSession (lit ''u2'') (JString (lit ''/''))])
   \<and> login_action stub_collaborators
     (request_of '''' [(''loginType'', ''register''), (''username'', ''ghost''),
                       (''password'', ''secret1'')]) =
     (Returned \<lparr>status = 400, location = None,
                body = JsonBody (LoginActionData
                  \<lparr>formError = Some (lit ''Not implemented''),
                   fieldErrors = None,
                   fields' = Some \<lparr>fields_loginType = lit ''register'',
                                   fields_username = lit ''ghost'',
                                   fields_password = lit ''secret1''\<rparr>\<rparr>)\<rparr>,
      [CallFormData, CallConsoleLog JNull,
       CallUserFindFirst (lit ''ghost''), CallRegister (lit ''ghost'') (lit ''secret1'')])"
  using login_action_register [of
          "request_of '''' [(''loginType'', ''register''), (''username'', ''bob''),
                            (''password'', ''secret1'')]"
          "lit ''bob''" "lit ''secret1''" stub_collaborators]
        login_action_register [of
          "request_of '''' [(''loginType'', ''register''), (''username'', ''alice''),
                            (''password'', ''secret1''), (''redirectTo'', ''/'')]"
          "lit ''alice''" "lit ''secret1''" stub_collaborators]
        login_action_register [of
          "request_of '''' [(''loginType'', ''register''), (''username'', ''ghost''),
                            (''password'', ''secret1'')]"
          "lit ''ghost''" "lit ''secret1''" stub_collaborators]
  by (simp add: stub_collaborators_def request_of_def form_get_def lit_inject length_lit
        default_url_def validateUrl_def array_includes_def lit_append [symmetric]
        validateUsername_def validatePassword_def)

end
